theory Spec2Isabelle
  imports Main "HOL-Library.AList"
begin

section \<open>The signaling server of server/server.js\<close>

text \<open>
  The server keeps two module-level JavaScript \<open>Map\<close>s, \<open>rooms\<close> (room code to room
  object) and \<open>users\<close> (socket id to \<open>{roomCode, name}\<close>), and registers seven handlers
  on every socket. Each handler runs to completion before the next event is taken, so a
  handler is a function from the store, the id of the socket and the payload of the event
  to the new store and the list of transport calls it made, in source order.
  \<open>console.log\<close> calls are not part of the model.
\<close>

subsection \<open>Data\<close>

text \<open>
  The objects stored in \<open>room.users\<close>: \<open>{id, name, isHost}\<close>. The fields \<open>id\<close> and
  \<open>name\<close> are written \<open>p_id\<close> and \<open>p_name\<close> here (\<open>id\<close> is the identity function
  of HOL, and \<open>name\<close> is also a field of the registry entry).
\<close>

record participant =
  p_id :: string
  p_name :: string
  isHost :: bool

text \<open>
  A room object \<open>{code, host, users, createdAt}\<close>. \<open>users\<close> is a JavaScript \<open>Map\<close>,
  which iterates in insertion order and whose \<open>values()\<close> are sent to clients, so it is
  an association list: \<open>Map.set\<close> is \<open>AList.update\<close> (an existing key keeps its place,
  a new key goes to the end), \<open>Map.delete\<close> is \<open>AList.delete\<close> and \<open>size\<close> is
  \<open>length\<close>. The field is written \<open>room_users\<close>, since \<open>users\<close> is also the registry.
\<close>

record room =
  code :: string
  host :: string
  room_users :: "(string \<times> participant) list"
  createdAt :: int

text \<open>A value of the \<open>users\<close> map: \<open>{roomCode, name}\<close>.\<close>

record user_entry =
  roomCode :: string
  name :: string

text \<open>The two module-level maps. Neither is ever iterated, so they are partial functions.\<close>

record server =
  rooms :: "string \<rightharpoonup> room"
  users :: "string \<rightharpoonup> user_entry"

definition init :: server where
  "init = \<lparr>rooms = Map.empty, users = Map.empty\<rparr>"

text \<open>
  Inbound events, with the fields the handlers read. The payloads of the relay events are
  never inspected, so their type is a parameter. \<open>CreateRoom\<close> also carries the two values
  its handler takes from the environment: the string \<open>Math.random().toString(36)\<close> and the
  number \<open>Date.now()\<close>.
\<close>

datatype 'p event =
    CreateRoom string string int
  | JoinRoom string string
  | Offer string 'p
  | Answer string 'p
  | IceCandidate string 'p
  | TranslationAudio 'p string
  | Disconnect

text \<open>Outbound messages, one constructor per event name, fields in source order.\<close>

datatype 'p msg =
    RoomCreated string bool "participant list"
  | UserJoined "string \<times> string" "participant list"
  | RoomJoined string "participant list" bool
  | ErrorOut (message: string)
  | OfferOut (offer: 'p) (caller: string)
  | AnswerOut (answer: 'p) (answerer: string)
  | IceCandidateOut (candidate: 'p) (sender: string)
  | TranslationAudioOut 'p string string
  | UserLeft string "participant list"

text \<open>
  The transport calls a handler makes on its socket: \<open>socket.join(room)\<close>,
  \<open>socket.emit(...)\<close> and \<open>socket.to(target).emit(...)\<close>.
\<close>

datatype 'p action =
    SocketJoin string
  | SocketEmit "'p msg"
  | SocketToEmit string "'p msg"

text \<open>
  Who receives a transport call, by the documented behaviour of socket.io (a library, not
  part of the repository): \<open>socket.emit\<close> reaches the socket itself,
  \<open>socket.to(t).emit\<close> reaches every socket that is in the transport room \<open>t\<close> except the
  sending socket. \<open>mem t\<close> is the set of connected sockets in transport room \<open>t\<close>; every
  connected socket is alone in the transport room named by its own id.
\<close>

definition recipients :: "(string \<Rightarrow> string set) \<Rightarrow> string \<Rightarrow> 'p action \<Rightarrow> string set" where
  "recipients mem sid a =
     (case a of
        SocketJoin _ \<Rightarrow> {}
      | SocketEmit _ \<Rightarrow> {sid}
      | SocketToEmit t _ \<Rightarrow> mem t - {sid})"

subsection \<open>generateRoomCode\<close>

text \<open>
  \<open>String.prototype.substring(a, b)\<close> for non-negative integer arguments: both indices are
  clamped to the length and swapped when \<open>a > b\<close>.
\<close>

definition substring :: "nat \<Rightarrow> nat \<Rightarrow> string \<Rightarrow> string" where
  "substring a b s = take (max a b - min a b) (drop (min a b) s)"

text \<open>
  \<open>toUpperCase\<close> on the characters \<open>Number.prototype.toString(36)\<close> can produce (digits,
  lower-case ASCII letters and the point): the letters \<open>a\<close> to \<open>z\<close> move to \<open>A\<close> to \<open>Z\<close>.
\<close>

definition toUpperCase_char :: "char \<Rightarrow> char" where
  "toUpperCase_char c =
     (if 97 \<le> (of_char c :: nat) \<and> (of_char c :: nat) \<le> 122
      then char_of ((of_char c :: nat) - 32) else c)"

definition toUpperCase :: "string \<Rightarrow> string" where
  "toUpperCase s = map toUpperCase_char s"

text \<open>
  \<open>Math.random().toString(36).substring(2, 8).toUpperCase()\<close>, as a function of the string
  \<open>rnd = Math.random().toString(36)\<close>.
\<close>

definition generateRoomCode :: "string \<Rightarrow> string" where
  "generateRoomCode rnd = toUpperCase (substring 2 8 rnd)"

subsection \<open>The handlers\<close>

definition create_room :: "server \<Rightarrow> string \<Rightarrow> string \<Rightarrow> string \<Rightarrow> int \<Rightarrow> server \<times> 'p action list" where
  "create_room s sid nm rnd now =
     (let rc = generateRoomCode rnd;
          r = \<lparr>code = rc, host = sid,
               room_users = AList.update sid \<lparr>p_id = sid, p_name = nm, isHost = True\<rparr> [],
               createdAt = now\<rparr>
      in (s\<lparr>rooms := (rooms s)(rc \<mapsto> r),
            users := (users s)(sid \<mapsto> \<lparr>roomCode = rc, name = nm\<rparr>)\<rparr>,
          [SocketJoin rc,
           SocketEmit (RoomCreated rc True (map snd (room_users r)))]))"

definition join_room :: "server \<Rightarrow> string \<Rightarrow> string \<Rightarrow> string \<Rightarrow> server \<times> 'p action list" where
  "join_room s sid rc nm =
     (case rooms s rc of
        None \<Rightarrow> (s, [SocketEmit (ErrorOut ''Room not found'')])
      | Some r \<Rightarrow>
          if length (room_users r) \<ge> 4 then (s, [SocketEmit (ErrorOut ''Room is full'')])
          else
            let r' = r\<lparr>room_users :=
                        AList.update sid \<lparr>p_id = sid, p_name = nm, isHost = False\<rparr> (room_users r)\<rparr>;
                userList = map snd (room_users r')
            in (s\<lparr>rooms := (rooms s)(rc \<mapsto> r'),
                  users := (users s)(sid \<mapsto> \<lparr>roomCode = rc, name = nm\<rparr>)\<rparr>,
                [SocketJoin rc,
                 SocketToEmit rc (UserJoined (sid, nm) userList),
                 SocketEmit (RoomJoined rc userList False)]))"

definition relay_offer :: "server \<Rightarrow> string \<Rightarrow> string \<Rightarrow> 'p \<Rightarrow> server \<times> 'p action list" where
  "relay_offer s sid target p = (s, [SocketToEmit target (OfferOut p sid)])"

definition relay_answer :: "server \<Rightarrow> string \<Rightarrow> string \<Rightarrow> 'p \<Rightarrow> server \<times> 'p action list" where
  "relay_answer s sid target p = (s, [SocketToEmit target (AnswerOut p sid)])"

definition relay_ice_candidate :: "server \<Rightarrow> string \<Rightarrow> string \<Rightarrow> 'p \<Rightarrow> server \<times> 'p action list" where
  "relay_ice_candidate s sid target p = (s, [SocketToEmit target (IceCandidateOut p sid)])"

definition translation_audio :: "server \<Rightarrow> string \<Rightarrow> 'p \<Rightarrow> string \<Rightarrow> server \<times> 'p action list" where
  "translation_audio s sid audio language =
     (case users s sid of
        None \<Rightarrow> (s, [])
      | Some user \<Rightarrow>
          (s, [SocketToEmit (roomCode user) (TranslationAudioOut audio language sid)]))"

definition disconnect :: "server \<Rightarrow> string \<Rightarrow> server \<times> 'p action list" where
  "disconnect s sid =
     (case users s sid of
        None \<Rightarrow> (s, [])
      | Some user \<Rightarrow>
          (case rooms s (roomCode user) of
             None \<Rightarrow> (s\<lparr>users := (users s)(sid := None)\<rparr>, [])
           | Some r \<Rightarrow>
               let r' = r\<lparr>room_users := AList.delete sid (room_users r)\<rparr>
               in (s\<lparr>rooms := (if length (room_users r') = 0
                                 then (rooms s)(roomCode user := None)
                                 else (rooms s)(roomCode user \<mapsto> r')),
                     users := (users s)(sid := None)\<rparr>,
                   [SocketToEmit (roomCode user) (UserLeft sid (map snd (room_users r')))])))"

text \<open>The dispatch of \<open>socket.on\<close>: the event of socket \<open>sid\<close> goes to its handler.\<close>

fun handle :: "server \<Rightarrow> string \<Rightarrow> 'p event \<Rightarrow> server \<times> 'p action list" where
  "handle s sid (CreateRoom nm rnd now) = create_room s sid nm rnd now"
| "handle s sid (JoinRoom rc nm) = join_room s sid rc nm"
| "handle s sid (Offer target p) = relay_offer s sid target p"
| "handle s sid (Answer target p) = relay_answer s sid target p"
| "handle s sid (IceCandidate target p) = relay_ice_candidate s sid target p"
| "handle s sid (TranslationAudio audio language) = translation_audio s sid audio language"
| "handle s sid Disconnect = disconnect s sid"

text \<open>The store after a sequence of events, each with the id of the socket it came from.\<close>

fun run :: "server \<Rightarrow> (string \<times> 'p event) list \<Rightarrow> server" where
  "run s [] = s"
| "run s ((sid, ev) # evs) = run (fst (handle s sid ev)) evs"

subsection \<open>Membership in the two maps\<close>

text \<open>\<open>is_member s rc sid\<close>: the room stored under \<open>rc\<close> exists and has \<open>sid\<close> as a key of its \<open>users\<close>.\<close>

definition is_member :: "server \<Rightarrow> string \<Rightarrow> string \<Rightarrow> bool" where
  "is_member s rc sid =
     (case rooms s rc of None \<Rightarrow> False | Some r \<Rightarrow> sid \<in> fst ` set (room_users r))"

text \<open>\<open>registered_in s sid rc\<close>: the registry has an entry for \<open>sid\<close> and it names room \<open>rc\<close>.\<close>

definition registered_in :: "server \<Rightarrow> string \<Rightarrow> string \<Rightarrow> bool" where
  "registered_in s sid rc =
     (case users s sid of None \<Rightarrow> False | Some u \<Rightarrow> roomCode u = rc)"


subsection \<open>Well-formed rooms\<close>

text \<open>
  What every stored room satisfies in a store reached from the empty one: between one and
  four members, no key twice, every participant stored under its own id, and no host flag
  on anybody but \<open>room.host\<close>.
\<close>

definition room_ok :: "room \<Rightarrow> bool" where
  "room_ok r \<longleftrightarrow>
     1 \<le> length (room_users r) \<and> length (room_users r) \<le> 4 \<and>
     distinct (map fst (room_users r)) \<and>
     (\<forall>kp \<in> set (room_users r). p_id (snd kp) = fst kp \<and> (isHost (snd kp) \<longrightarrow> fst kp = host r))"

definition rooms_ok :: "server \<Rightarrow> bool" where
  "rooms_ok s \<longleftrightarrow> (\<forall>rc r. rooms s rc = Some r \<longrightarrow> room_ok r \<and> code r = rc)"

subsection \<open>Predicates on runs\<close>


text \<open>
  \<open>settled s sid rc\<close>: the registry entry of \<open>sid\<close>, if it has one, names \<open>rc\<close>.
\<close>

definition settled :: "server \<Rightarrow> string \<Rightarrow> string \<Rightarrow> bool" where
  "settled s sid rc = (case users s sid of None \<Rightarrow> True | Some u \<Rightarrow> roomCode u = rc)"

text \<open>
  \<open>join_refused s rc\<close>: a join-room for \<open>rc\<close> takes one of the two early returns of its
  handler (no such room, or the room has 4 members).
\<close>

definition join_refused :: "server \<Rightarrow> string \<Rightarrow> bool" where
  "join_refused s rc =
     (case rooms s rc of None \<Rightarrow> True | Some r \<Rightarrow> 4 \<le> length (room_users r))"

text \<open>
  \<open>fresh_code s ev\<close>: if the event is a create-room, the code it generates is not a key of
  \<open>rooms\<close>. \<open>fresh_codes s evs\<close>: this holds of every event of the sequence, in the store
  it arrives in.
\<close>

fun fresh_code :: "server \<Rightarrow> 'p event \<Rightarrow> bool" where
  "fresh_code s (CreateRoom nm rnd now) = (rooms s (generateRoomCode rnd) = None)"
| "fresh_code s (JoinRoom rc nm) = True"
| "fresh_code s (Offer target p) = True"
| "fresh_code s (Answer target p) = True"
| "fresh_code s (IceCandidate target p) = True"
| "fresh_code s (TranslationAudio audio language) = True"
| "fresh_code s Disconnect = True"

fun fresh_codes :: "server \<Rightarrow> (string \<times> 'p event) list \<Rightarrow> bool" where
  "fresh_codes s [] = True"
| "fresh_codes s ((sid, ev) # evs) = (fresh_code s ev \<and> fresh_codes (fst (handle s sid ev)) evs)"

text \<open>
  \<open>one_room s sid ev\<close>: the event does not put a socket that is registered in one room
  into another. A create-room qualifies when the registry entry of its socket, if any,
  names the generated code; a join-room when it is refused, or when the registry entry of
  its socket, if any, names the room asked for. \<open>one_room_each s evs\<close>: this holds of
  every event of the sequence, in the store it arrives in.
\<close>

fun one_room :: "server \<Rightarrow> string \<Rightarrow> 'p event \<Rightarrow> bool" where
  "one_room s sid (CreateRoom nm rnd now) = settled s sid (generateRoomCode rnd)"
| "one_room s sid (JoinRoom rc nm) = (join_refused s rc \<or> settled s sid rc)"
| "one_room s sid (Offer target p) = True"
| "one_room s sid (Answer target p) = True"
| "one_room s sid (IceCandidate target p) = True"
| "one_room s sid (TranslationAudio audio language) = True"
| "one_room s sid Disconnect = True"

fun one_room_each :: "server \<Rightarrow> (string \<times> 'p event) list \<Rightarrow> bool" where
  "one_room_each s [] = True"
| "one_room_each s ((sid, ev) # evs) = (one_room s sid ev \<and> one_room_each (fst (handle s sid ev)) evs)"

text \<open>
  The two halves of the agreement of the maps: every registry entry is backed by a
  membership, and every membership is bound by a registry entry.
\<close>

definition entries_backed :: "server \<Rightarrow> bool" where
  "entries_backed s \<longleftrightarrow> (\<forall>x rc. registered_in s x rc \<longrightarrow> is_member s rc x)"

definition members_bound :: "server \<Rightarrow> bool" where
  "members_bound s \<longleftrightarrow> (\<forall>x rc. is_member s rc x \<longrightarrow> registered_in s x rc)"


text \<open>
  The transport rooms of socket.io when the sockets \<open>conns\<close> are connected and the sockets
  \<open>members\<close> have called \<open>socket.join(rc)\<close>: the room \<open>rc\<close> holds \<open>members\<close>, and every
  connected socket is alone in the room named by its own id.
\<close>

definition transport_rooms :: "string list \<Rightarrow> string \<Rightarrow> string list \<Rightarrow> string \<Rightarrow> string set" where
  "transport_rooms conns rc members t =
     (if t = rc then set members else if t \<in> set conns then {t} else {})"

text \<open>
  \<open>touches a sid e\<close>: the event \<open>e\<close> is a create-room whose generated code is \<open>a\<close>, or a
  join-room for \<open>a\<close> sent by \<open>sid\<close>.
\<close>

fun touches :: "string \<Rightarrow> string \<Rightarrow> string \<times> 'p event \<Rightarrow> bool" where
  "touches a sid (sid', CreateRoom nm rnd now) = (generateRoomCode rnd = a)"
| "touches a sid (sid', JoinRoom rc nm) = (sid' = sid \<and> rc = a)"
| "touches a sid (sid', Offer target p) = False"
| "touches a sid (sid', Answer target p) = False"
| "touches a sid (sid', IceCandidate target p) = False"
| "touches a sid (sid', TranslationAudio audio language) = False"
| "touches a sid (sid', Disconnect) = False"

section \<open>Association lists\<close>

lemma length_update:
  "length (AList.update k v al) = (if k \<in> fst ` set al then length al else Suc (length al))"
  by (induct al) auto

lemma set_update_subset: "set (AList.update k v al) \<subseteq> insert (k, v) (set al)"
  by (induct al) auto

lemma set_delete_subset: "set (AList.delete k al) \<subseteq> set al"
  by (induct al) auto

lemma keys_delete: "fst ` set (AList.delete k al) = fst ` set al - {k}"
  by (induct al) auto

section \<open>The room invariant\<close>

lemma room_okI:
  "1 \<le> length (room_users r) \<Longrightarrow> length (room_users r) \<le> 4 \<Longrightarrow>
   distinct (map fst (room_users r)) \<Longrightarrow>
   (\<And>kp. kp \<in> set (room_users r) \<Longrightarrow>
      p_id (snd kp) = fst kp \<and> (isHost (snd kp) \<longrightarrow> fst kp = host r)) \<Longrightarrow>
   room_ok r"
  unfolding room_ok_def by blast

lemma room_ok_length: "room_ok r \<Longrightarrow> 1 \<le> length (room_users r) \<and> length (room_users r) \<le> 4"
  unfolding room_ok_def by blast

lemma room_ok_distinct: "room_ok r \<Longrightarrow> distinct (map fst (room_users r))"
  unfolding room_ok_def by blast

lemma room_ok_entry:
  "room_ok r \<Longrightarrow> kp \<in> set (room_users r) \<Longrightarrow>
   p_id (snd kp) = fst kp \<and> (isHost (snd kp) \<longrightarrow> fst kp = host r)"
  unfolding room_ok_def by blast

lemma room_ok_create:
  "room_ok \<lparr>code = rc, host = sid,
            room_users = AList.update sid \<lparr>p_id = sid, p_name = nm, isHost = True\<rparr> [],
            createdAt = now\<rparr>"
  by (rule room_okI) simp_all

lemma room_ok_join:
  assumes "room_ok r" and "\<not> 4 \<le> length (room_users r)"
  shows "room_ok (r\<lparr>room_users :=
            AList.update sid \<lparr>p_id = sid, p_name = nm, isHost = False\<rparr> (room_users r)\<rparr>)"
proof -
  let ?p = "\<lparr>p_id = sid, p_name = nm, isHost = False\<rparr>"
  let ?us = "AList.update sid ?p (room_users r)"
  have len: "1 \<le> length ?us" "length ?us \<le> 4"
    using assms(2) room_ok_length[OF assms(1)] by (simp_all add: length_update)
  have dist: "distinct (map fst ?us)"
    using room_ok_distinct[OF assms(1)] by (rule distinct_update)
  have ent: "p_id (snd kp) = fst kp \<and> (isHost (snd kp) \<longrightarrow> fst kp = host r)"
    if "kp \<in> set ?us" for kp
  proof -
    from that have "kp = (sid, ?p) \<or> kp \<in> set (room_users r)"
      using set_update_subset[of sid ?p "room_users r"] by blast
    then show ?thesis
    proof
      assume "kp = (sid, ?p)"
      then show ?thesis by simp
    next
      assume "kp \<in> set (room_users r)"
      then show ?thesis by (rule room_ok_entry[OF assms(1)])
    qed
  qed
  show ?thesis
  proof (rule room_okI)
    show "1 \<le> length (room_users (r\<lparr>room_users := ?us\<rparr>))" using len(1) by simp
    show "length (room_users (r\<lparr>room_users := ?us\<rparr>)) \<le> 4" using len(2) by simp
    show "distinct (map fst (room_users (r\<lparr>room_users := ?us\<rparr>)))" using dist by simp
    show "p_id (snd kp) = fst kp \<and> (isHost (snd kp) \<longrightarrow> fst kp = host (r\<lparr>room_users := ?us\<rparr>))"
      if "kp \<in> set (room_users (r\<lparr>room_users := ?us\<rparr>))" for kp
      using ent[of kp] that by simp
  qed
qed

lemma room_ok_delete:
  assumes "room_ok r" and "AList.delete sid (room_users r) \<noteq> []"
  shows "room_ok (r\<lparr>room_users := AList.delete sid (room_users r)\<rparr>)"
proof -
  let ?us = "AList.delete sid (room_users r)"
  have "length ?us \<le> length (room_users r)"
    by (rule length_delete_le)
  with room_ok_length[OF assms(1)] have len4: "length ?us \<le> 4"
    by simp
  from assms(2) have len1: "1 \<le> length ?us"
    by (cases ?us) simp_all
  have dist: "distinct (map fst ?us)"
    using room_ok_distinct[OF assms(1)] by (rule distinct_delete)
  have ent: "p_id (snd kp) = fst kp \<and> (isHost (snd kp) \<longrightarrow> fst kp = host r)"
    if "kp \<in> set ?us" for kp
  proof -
    from that have "kp \<in> set (room_users r)"
      using set_delete_subset[of sid "room_users r"] by blast
    then show ?thesis by (rule room_ok_entry[OF assms(1)])
  qed
  show ?thesis
  proof (rule room_okI)
    show "1 \<le> length (room_users (r\<lparr>room_users := ?us\<rparr>))" using len1 by simp
    show "length (room_users (r\<lparr>room_users := ?us\<rparr>)) \<le> 4" using len4 by simp
    show "distinct (map fst (room_users (r\<lparr>room_users := ?us\<rparr>)))" using dist by simp
    show "p_id (snd kp) = fst kp \<and> (isHost (snd kp) \<longrightarrow> fst kp = host (r\<lparr>room_users := ?us\<rparr>))"
      if "kp \<in> set (room_users (r\<lparr>room_users := ?us\<rparr>))" for kp
      using ent[of kp] that by simp
  qed
qed

section \<open>The two maps after each handler\<close>

lemma rooms_create_room:
  "rooms (fst (create_room s sid nm rnd now)) =
     (rooms s)(generateRoomCode rnd \<mapsto>
        \<lparr>code = generateRoomCode rnd, host = sid,
         room_users = AList.update sid \<lparr>p_id = sid, p_name = nm, isHost = True\<rparr> [],
         createdAt = now\<rparr>)"
  by (simp add: create_room_def Let_def)

lemma users_create_room:
  "users (fst (create_room s sid nm rnd now)) =
     (users s)(sid \<mapsto> \<lparr>roomCode = generateRoomCode rnd, name = nm\<rparr>)"
  by (simp add: create_room_def Let_def)

lemma join_room_fail:
  "rooms s rc = None \<or> (\<exists>r. rooms s rc = Some r \<and> 4 \<le> length (room_users r)) \<Longrightarrow>
   fst (join_room s sid rc nm) = s"
  by (auto simp: join_room_def)

lemma rooms_join_room:
  "rooms s rc = Some r \<Longrightarrow> \<not> 4 \<le> length (room_users r) \<Longrightarrow>
   rooms (fst (join_room s sid rc nm)) =
     (rooms s)(rc \<mapsto> r\<lparr>room_users :=
        AList.update sid \<lparr>p_id = sid, p_name = nm, isHost = False\<rparr> (room_users r)\<rparr>)"
  by (simp add: join_room_def Let_def)

lemma users_join_room:
  "rooms s rc = Some r \<Longrightarrow> \<not> 4 \<le> length (room_users r) \<Longrightarrow>
   users (fst (join_room s sid rc nm)) = (users s)(sid \<mapsto> \<lparr>roomCode = rc, name = nm\<rparr>)"
  by (simp add: join_room_def Let_def)

lemma disconnect_unregistered: "users s sid = None \<Longrightarrow> fst (disconnect s sid) = s"
  by (simp add: disconnect_def)

lemma users_disconnect: "users (fst (disconnect s sid)) = (users s)(sid := None)"
  by (auto simp: disconnect_def Let_def split: option.splits)

lemma rooms_disconnect_no_room:
  "users s sid = Some u \<Longrightarrow> rooms s (roomCode u) = None \<Longrightarrow>
   rooms (fst (disconnect s sid)) = rooms s"
  by (simp add: disconnect_def)

lemma rooms_disconnect_last:
  "users s sid = Some u \<Longrightarrow> rooms s (roomCode u) = Some r \<Longrightarrow>
   AList.delete sid (room_users r) = [] \<Longrightarrow>
   rooms (fst (disconnect s sid)) = (rooms s)(roomCode u := None)"
  by (simp add: disconnect_def Let_def)

lemma rooms_disconnect_rest:
  "users s sid = Some u \<Longrightarrow> rooms s (roomCode u) = Some r \<Longrightarrow>
   AList.delete sid (room_users r) \<noteq> [] \<Longrightarrow>
   rooms (fst (disconnect s sid)) =
     (rooms s)(roomCode u \<mapsto> r\<lparr>room_users := AList.delete sid (room_users r)\<rparr>)"
  by (simp add: disconnect_def Let_def)

section \<open>Every handler keeps the room invariant\<close>

lemma create_room_rooms_ok:
  assumes "rooms_ok s"
  shows "rooms_ok (fst (create_room s sid nm rnd now))"
  unfolding rooms_ok_def
proof (intro allI impI)
  fix rc r
  assume h: "rooms (fst (create_room s sid nm rnd now)) rc = Some r"
  show "room_ok r \<and> code r = rc"
  proof (cases "rc = generateRoomCode rnd")
    case True
    with h have "r = \<lparr>code = rc, host = sid,
         room_users = AList.update sid \<lparr>p_id = sid, p_name = nm, isHost = True\<rparr> [],
         createdAt = now\<rparr>"
      by (simp add: rooms_create_room)
    then show ?thesis using room_ok_create[of rc sid nm now] by simp
  next
    case False
    with h have "rooms s rc = Some r" by (simp add: rooms_create_room)
    with assms show ?thesis by (simp add: rooms_ok_def)
  qed
qed

lemma join_room_rooms_ok:
  assumes "rooms_ok s"
  shows "rooms_ok (fst (join_room s sid rc nm))"
proof (cases "rooms s rc = None \<or> (\<exists>r. rooms s rc = Some r \<and> 4 \<le> length (room_users r))")
  case True
  then show ?thesis using assms by (simp add: join_room_fail)
next
  case False
  then obtain r0 where r0: "rooms s rc = Some r0" "\<not> 4 \<le> length (room_users r0)"
    by auto
  from assms r0 have ok0: "room_ok r0" "code r0 = rc" by (auto simp: rooms_ok_def)
  show ?thesis
    unfolding rooms_ok_def
  proof (intro allI impI)
    fix rc' r
    assume h: "rooms (fst (join_room s sid rc nm)) rc' = Some r"
    show "room_ok r \<and> code r = rc'"
    proof (cases "rc' = rc")
      case True
      with h r0 have "r = r0\<lparr>room_users :=
          AList.update sid \<lparr>p_id = sid, p_name = nm, isHost = False\<rparr> (room_users r0)\<rparr>"
        by (simp add: rooms_join_room)
      then show ?thesis using room_ok_join[OF ok0(1) r0(2), of sid nm] ok0(2) True by simp
    next
      case False
      with h r0 have "rooms s rc' = Some r" by (simp add: rooms_join_room)
      with assms show ?thesis by (simp add: rooms_ok_def)
    qed
  qed
qed

lemma disconnect_rooms_ok:
  assumes "rooms_ok s"
  shows "rooms_ok (fst (disconnect s sid))"
proof (cases "users s sid")
  case None
  then show ?thesis using assms by (simp add: disconnect_unregistered)
next
  case (Some u)
  show ?thesis
  proof (cases "rooms s (roomCode u)")
    case None
    with Some assms show ?thesis by (simp add: rooms_ok_def rooms_disconnect_no_room)
  next
    case r0: (Some r0)
    from assms r0 have ok0: "room_ok r0" "code r0 = roomCode u" by (auto simp: rooms_ok_def)
    show ?thesis
    proof (cases "AList.delete sid (room_users r0) = []")
      case True
      have eq: "rooms (fst (disconnect s sid)) = (rooms s)(roomCode u := None)"
        by (rule rooms_disconnect_last[OF Some r0 True])
      from assms show ?thesis by (simp add: rooms_ok_def eq)
    next
      case False
      have eq: "rooms (fst (disconnect s sid)) =
         (rooms s)(roomCode u \<mapsto> r0\<lparr>room_users := AList.delete sid (room_users r0)\<rparr>)"
        by (rule rooms_disconnect_rest[OF Some r0 False])
      from room_ok_delete[OF ok0(1) False] ok0(2) assms show ?thesis
        by (simp add: rooms_ok_def eq)
    qed
  qed
qed

lemma handle_rooms_ok: "rooms_ok s \<Longrightarrow> rooms_ok (fst (handle s sid ev))"
  by (cases ev)
     (simp_all add: create_room_rooms_ok join_room_rooms_ok disconnect_rooms_ok
        relay_offer_def relay_answer_def relay_ice_candidate_def translation_audio_def
        split: option.splits)

lemma run_rooms_ok: "rooms_ok s \<Longrightarrow> rooms_ok (run s evs)"
  by (induction evs arbitrary: s) (auto simp: handle_rooms_ok)

lemma init_rooms_ok: "rooms_ok init"
  by (simp add: rooms_ok_def init_def)

section \<open>Room size\<close>

text \<open>
  C1. After every sequence of events from the empty store, every room in \<open>rooms\<close> has
  between 1 and 4 members; and in any store, a disconnect that removes the last member
  of the room named by the registry entry deletes that room in the same call, so no
  stored room is ever left with zero members.
\<close>

theorem room_size_invariant:
  "(rooms (run init evs) rc = Some r \<longrightarrow>
      1 \<le> length (room_users r) \<and> length (room_users r) \<le> 4) \<and>
   (users s sid = Some u \<and> rooms s (roomCode u) = Some r' \<and>
    AList.delete sid (room_users r') = [] \<longrightarrow>
      rooms (fst (disconnect s sid)) (roomCode u) = None)"
proof -
  have bounds: "1 \<le> length (room_users r) \<and> length (room_users r) \<le> 4"
    if "rooms (run init evs) rc = Some r"
  proof -
    have "rooms_ok (run init evs)"
      using init_rooms_ok by (rule run_rooms_ok)
    with that have "room_ok r" by (simp add: rooms_ok_def)
    then show ?thesis by (rule room_ok_length)
  qed
  have deleted: "rooms (fst (disconnect s sid)) (roomCode u) = None"
    if "users s sid = Some u \<and> rooms s (roomCode u) = Some r' \<and>
        AList.delete sid (room_users r') = []"
    using that by (simp add: rooms_disconnect_last)
  from bounds deleted show ?thesis by blast
qed

theorem room_size_invariant_witness:
  "rooms (run init [(''s1'', CreateRoom ''Alice'' ''0.abc123xyz'' 0),
                    (''s2'', JoinRoom ''ABC123'' ''Bob''),
                    (''s1'', Disconnect :: unit event)]) ''ABC123''
     = Some \<lparr>code = ''ABC123'', host = ''s1'',
             room_users = [(''s2'', \<lparr>p_id = ''s2'', p_name = ''Bob'', isHost = False\<rparr>)],
             createdAt = 0\<rparr> \<and>
   1 \<le> length [(''s2'', \<lparr>p_id = ''s2'', p_name = ''Bob'', isHost = False\<rparr>)] \<and>
   length [(''s2'', \<lparr>p_id = ''s2'', p_name = ''Bob'', isHost = False\<rparr>)] \<le> 4 \<and>
   users (run init [(''s1'', CreateRoom ''Alice'' ''0.abc123xyz'' 0 :: unit event)]) ''s1''
     = Some \<lparr>roomCode = ''ABC123'', name = ''Alice''\<rparr> \<and>
   rooms (run init [(''s1'', CreateRoom ''Alice'' ''0.abc123xyz'' 0 :: unit event)]) ''ABC123''
     = Some \<lparr>code = ''ABC123'', host = ''s1'',
             room_users = [(''s1'', \<lparr>p_id = ''s1'', p_name = ''Alice'', isHost = True\<rparr>)],
             createdAt = 0\<rparr> \<and>
   AList.delete ''s1'' [(''s1'', \<lparr>p_id = ''s1'', p_name = ''Alice'', isHost = True\<rparr>)] = [] \<and>
   rooms (fst (disconnect (run init [(''s1'', CreateRoom ''Alice'' ''0.abc123xyz'' 0 :: unit event)]) ''s1''
            :: server \<times> unit action list)) ''ABC123'' = None"
proof -
  let ?evs = "[(''s1'', CreateRoom ''Alice'' ''0.abc123xyz'' 0),
               (''s2'', JoinRoom ''ABC123'' ''Bob''),
               (''s1'', Disconnect :: unit event)]"
  let ?r = "\<lparr>code = ''ABC123'', host = ''s1'',
             room_users = [(''s2'', \<lparr>p_id = ''s2'', p_name = ''Bob'', isHost = False\<rparr>)],
             createdAt = 0\<rparr>"
  let ?s = "run init [(''s1'', CreateRoom ''Alice'' ''0.abc123xyz'' 0 :: unit event)]"
  let ?u = "\<lparr>roomCode = ''ABC123'', name = ''Alice''\<rparr>"
  let ?r' = "\<lparr>code = ''ABC123'', host = ''s1'',
             room_users = [(''s1'', \<lparr>p_id = ''s1'', p_name = ''Alice'', isHost = True\<rparr>)],
             createdAt = 0\<rparr>"
  have a: "rooms (run init ?evs) ''ABC123'' = Some ?r" by code_simp
  have b: "users ?s ''s1'' = Some ?u" by code_simp
  have c: "rooms ?s ''ABC123'' = Some ?r'" by code_simp
  have d: "AList.delete ''s1'' [(''s1'', \<lparr>p_id = ''s1'', p_name = ''Alice'', isHost = True\<rparr>)] = []"
    by simp
  show ?thesis
    using room_size_invariant[of ?evs "''ABC123''" ?r ?s "''s1''" ?u ?r'] a b c d
    by simp
qed

section \<open>Rejected joins\<close>

text \<open>
  C3. A join-room naming a stored room that has exactly 4 members makes one transport
  call only, \<open>socket.emit('error', {message: 'Room is full'})\<close>, which reaches the
  requesting socket and nobody else, and returns the store as it was: neither
  \<open>rooms\<close> nor \<open>users\<close> changes and the member is not added.
\<close>

theorem join_full_room:
  assumes "rooms s rc = Some r" and "length (room_users r) = 4"
  shows "handle s sid (JoinRoom rc nm :: 'p event) = (s, [SocketEmit (ErrorOut ''Room is full'')]) \<and>
         recipients mem sid (SocketEmit (ErrorOut ''Room is full'') :: 'p action) = {sid}"
  using assms by (simp add: join_room_def recipients_def)

theorem join_full_room_witness:
  "rooms (run init [(''s1'', CreateRoom ''Alice'' ''0.abc123xyz'' 0),
                    (''s2'', JoinRoom ''ABC123'' ''Bob''),
                    (''s3'', JoinRoom ''ABC123'' ''Carol''),
                    (''s4'', JoinRoom ''ABC123'' ''Dave'' :: unit event)]) ''ABC123''
     = Some \<lparr>code = ''ABC123'', host = ''s1'',
             room_users = [(''s1'', \<lparr>p_id = ''s1'', p_name = ''Alice'', isHost = True\<rparr>),
                           (''s2'', \<lparr>p_id = ''s2'', p_name = ''Bob'', isHost = False\<rparr>),
                           (''s3'', \<lparr>p_id = ''s3'', p_name = ''Carol'', isHost = False\<rparr>),
                           (''s4'', \<lparr>p_id = ''s4'', p_name = ''Dave'', isHost = False\<rparr>)],
             createdAt = 0\<rparr> \<and>
   handle (run init [(''s1'', CreateRoom ''Alice'' ''0.abc123xyz'' 0),
                     (''s2'', JoinRoom ''ABC123'' ''Bob''),
                     (''s3'', JoinRoom ''ABC123'' ''Carol''),
                     (''s4'', JoinRoom ''ABC123'' ''Dave'' :: unit event)])
          ''s5'' (JoinRoom ''ABC123'' ''Eve'' :: unit event)
     = (run init [(''s1'', CreateRoom ''Alice'' ''0.abc123xyz'' 0),
                  (''s2'', JoinRoom ''ABC123'' ''Bob''),
                  (''s3'', JoinRoom ''ABC123'' ''Carol''),
                  (''s4'', JoinRoom ''ABC123'' ''Dave'' :: unit event)],
        [SocketEmit (ErrorOut ''Room is full'')])"
proof -
  let ?s = "run init [(''s1'', CreateRoom ''Alice'' ''0.abc123xyz'' 0),
                      (''s2'', JoinRoom ''ABC123'' ''Bob''),
                      (''s3'', JoinRoom ''ABC123'' ''Carol''),
                      (''s4'', JoinRoom ''ABC123'' ''Dave'' :: unit event)]"
  let ?r = "\<lparr>code = ''ABC123'', host = ''s1'',
             room_users = [(''s1'', \<lparr>p_id = ''s1'', p_name = ''Alice'', isHost = True\<rparr>),
                           (''s2'', \<lparr>p_id = ''s2'', p_name = ''Bob'', isHost = False\<rparr>),
                           (''s3'', \<lparr>p_id = ''s3'', p_name = ''Carol'', isHost = False\<rparr>),
                           (''s4'', \<lparr>p_id = ''s4'', p_name = ''Dave'', isHost = False\<rparr>)],
             createdAt = 0\<rparr>"
  have a: "rooms ?s ''ABC123'' = Some ?r" by code_simp
  have b: "length (room_users ?r) = 4" by simp
  from join_full_room[where ?'p = unit, OF a b, of "''s5''" "''Eve''" "\<lambda>_. {}"] a show ?thesis
    by simp
qed

text \<open>
  C4. A join-room whose room code is not a key of \<open>rooms\<close> makes one transport call only,
  \<open>socket.emit('error', {message: 'Room not found'})\<close>, which reaches the requesting
  socket and nobody else, and returns the store as it was: no room is created and no
  room or registry entry is modified.
\<close>

theorem join_missing_room:
  assumes "rooms s rc = None"
  shows "handle s sid (JoinRoom rc nm :: 'p event) = (s, [SocketEmit (ErrorOut ''Room not found'')]) \<and>
         recipients mem sid (SocketEmit (ErrorOut ''Room not found'') :: 'p action) = {sid}"
  using assms by (simp add: join_room_def recipients_def)

theorem join_missing_room_witness:
  "rooms init ''ZZZZZZ'' = None \<and>
   handle init ''s1'' (JoinRoom ''ZZZZZZ'' ''Bob'' :: unit event)
     = (init, [SocketEmit (ErrorOut ''Room not found'')])"
proof -
  have a: "rooms init ''ZZZZZZ'' = None" by (simp add: init_def)
  from join_missing_room[where ?'p = unit, OF a, of "''s1''" "''Bob''" "\<lambda>_. {}"] a show ?thesis
    by simp
qed

section \<open>Disconnect twice\<close>

text \<open>
  C9. Handling disconnect a second time for the same socket returns the store left by the
  first call unchanged and makes no transport call (so no second user-left); a disconnect
  of a socket that has no registry entry changes nothing and makes no transport call.
\<close>

theorem disconnect_idempotent:
  "handle (fst (handle s sid (Disconnect :: 'p event))) sid (Disconnect :: 'p event)
     = (fst (handle s sid (Disconnect :: 'p event)), []) \<and>
   (users s sid = None \<longrightarrow> handle s sid (Disconnect :: 'p event) = (s, []))"
  by (simp add: disconnect_def Let_def split: option.splits)

theorem disconnect_idempotent_witness:
  "users init ''s1'' = None \<and> handle init ''s1'' (Disconnect :: unit event) = (init, [])"
proof -
  have a: "users init ''s1'' = None" by (simp add: init_def)
  from disconnect_idempotent[where ?'p = unit, of init "''s1''"] a show ?thesis
    by simp
qed

section \<open>The signaling relay\<close>

text \<open>
  C8, amended. The offer, answer and ice-candidate handlers return the store unchanged,
  look at no room, and make exactly one transport call: \<open>socket.to(target).emit\<close> of the
  payload as received together with the id of the sending socket (the fields \<open>caller\<close>,
  \<open>answerer\<close> and \<open>sender\<close>). The call reaches every socket in the transport room
  \<open>target\<close> except the sender, and nothing is ever sent back to the sender: it reaches
  exactly the target when \<open>target\<close> is the id of another connected socket, nobody when
  \<open>target\<close> is the sender's own id, and nobody when no connected socket is in the
  transport room \<open>target\<close>.
\<close>

theorem relay_signaling:
  "handle s sid (Offer target p) = (s, [SocketToEmit target (OfferOut p sid)]) \<and>
   handle s sid (Answer target p) = (s, [SocketToEmit target (AnswerOut p sid)]) \<and>
   handle s sid (IceCandidate target p) = (s, [SocketToEmit target (IceCandidateOut p sid)]) \<and>
   recipients mem sid (SocketToEmit target m) = mem target - {sid} \<and>
   sid \<notin> recipients mem sid (SocketToEmit target m) \<and>
   (mem target = {target} \<and> target \<noteq> sid \<longrightarrow>
      recipients mem sid (SocketToEmit target m) = {target}) \<and>
   (mem target = {target} \<and> target = sid \<longrightarrow>
      recipients mem sid (SocketToEmit target m) = {}) \<and>
   (mem target = {} \<longrightarrow> recipients mem sid (SocketToEmit target m) = {})"
  by (auto simp: relay_offer_def relay_answer_def relay_ice_candidate_def recipients_def)

theorem relay_signaling_witness:
  "transport_rooms [''s1'', ''s2'', ''s3''] ''ABC123'' [''s1'', ''s2'', ''s3''] ''s2'' = {''s2''} \<and>
   ''s2'' \<noteq> ''s1'' \<and>
   recipients (transport_rooms [''s1'', ''s2'', ''s3''] ''ABC123'' [''s1'', ''s2'', ''s3'']) ''s1''
     (SocketToEmit ''s2'' (OfferOut (7 :: nat) ''s1'')) = {''s2''} \<and>
   transport_rooms [''s1'', ''s2'', ''s3''] ''ABC123'' [''s1'', ''s2'', ''s3''] ''s1'' = {''s1''} \<and>
   recipients (transport_rooms [''s1'', ''s2'', ''s3''] ''ABC123'' [''s1'', ''s2'', ''s3'']) ''s1''
     (SocketToEmit ''s1'' (OfferOut (7 :: nat) ''s1'')) = {} \<and>
   transport_rooms [''s1'', ''s2'', ''s3''] ''ABC123'' [''s1'', ''s2'', ''s3''] ''s9'' = {} \<and>
   recipients (transport_rooms [''s1'', ''s2'', ''s3''] ''ABC123'' [''s1'', ''s2'', ''s3'']) ''s1''
     (SocketToEmit ''s9'' (OfferOut (7 :: nat) ''s1'')) = {} \<and>
   handle init ''s1'' (Offer ''s9'' (7 :: nat)) = (init, [SocketToEmit ''s9'' (OfferOut 7 ''s1'')])"
proof -
  let ?mem = "transport_rooms [''s1'', ''s2'', ''s3''] ''ABC123'' [''s1'', ''s2'', ''s3'']"
  have a: "?mem ''s2'' = {''s2''} \<and> ''s2'' \<noteq> ''s1''" by (simp add: transport_rooms_def)
  have b: "?mem ''s1'' = {''s1''}" by (simp add: transport_rooms_def)
  have c: "?mem ''s9'' = {}" by (simp add: transport_rooms_def)
  from relay_signaling[of init "''s1''" "''s2''" "7 :: nat" ?mem "OfferOut (7 :: nat) ''s1''"]
       relay_signaling[of init "''s1''" "''s1''" "7 :: nat" ?mem "OfferOut (7 :: nat) ''s1''"]
       relay_signaling[of init "''s1''" "''s9''" "7 :: nat" ?mem "OfferOut (7 :: nat) ''s1''"]
       a b c
  show ?thesis by simp
qed

text \<open>
  C8 as stated fails in "forwards to the target connection": an offer whose target is
  the sender's own id reaches nobody although that socket is connected, and an offer
  whose target is a room code reaches every other member of the room.
\<close>

theorem relay_signaling_counterexample:
  "transport_rooms [''s1'', ''s2'', ''s3''] ''ABC123'' [''s1'', ''s2'', ''s3''] ''s1'' = {''s1''} \<and>
   handle init ''s1'' (Offer ''s1'' (7 :: nat)) = (init, [SocketToEmit ''s1'' (OfferOut 7 ''s1'')]) \<and>
   recipients (transport_rooms [''s1'', ''s2'', ''s3''] ''ABC123'' [''s1'', ''s2'', ''s3'']) ''s1''
     (SocketToEmit ''s1'' (OfferOut (7 :: nat) ''s1'')) = {} \<and>
   handle init ''s1'' (Offer ''ABC123'' (7 :: nat))
     = (init, [SocketToEmit ''ABC123'' (OfferOut 7 ''s1'')]) \<and>
   recipients (transport_rooms [''s1'', ''s2'', ''s3''] ''ABC123'' [''s1'', ''s2'', ''s3'']) ''s1''
     (SocketToEmit ''ABC123'' (OfferOut (7 :: nat) ''s1'')) = {''s2'', ''s3''}"
  by (auto simp: transport_rooms_def recipients_def relay_offer_def)

section \<open>Registry and room store\<close>

lemma keys_update: "fst ` set (AList.update k v al) = insert k (fst ` set al)"
  by (simp add: dom_update)

lemma delete_Nil_keys: "AList.delete k al = [] \<Longrightarrow> x \<in> fst ` set al \<Longrightarrow> x = k"
  using keys_delete[of k al] by auto

lemma is_member_create_room:
  "is_member (fst (create_room s sid nm rnd now)) rc x =
     (if rc = generateRoomCode rnd then x = sid else is_member s rc x)"
  by (simp add: is_member_def rooms_create_room)

lemma registered_in_create_room:
  "registered_in (fst (create_room s sid nm rnd now)) x rc =
     (if x = sid then rc = generateRoomCode rnd else registered_in s x rc)"
  by (auto simp: registered_in_def users_create_room)

lemma is_member_join_room:
  "rooms s rc0 = Some r \<Longrightarrow> \<not> 4 \<le> length (room_users r) \<Longrightarrow>
   is_member (fst (join_room s sid rc0 nm)) rc x =
     (if rc = rc0 then x = sid \<or> is_member s rc0 x else is_member s rc x)"
  by (simp add: is_member_def rooms_join_room keys_update)

lemma registered_in_join_room:
  "rooms s rc0 = Some r \<Longrightarrow> \<not> 4 \<le> length (room_users r) \<Longrightarrow>
   registered_in (fst (join_room s sid rc0 nm)) x rc =
     (if x = sid then rc = rc0 else registered_in s x rc)"
  by (auto simp: registered_in_def users_join_room)

lemma registered_in_disconnect:
  "registered_in (fst (disconnect s sid)) x rc = (x \<noteq> sid \<and> registered_in s x rc)"
  by (simp add: registered_in_def users_disconnect)

lemma is_member_disconnect:
  assumes "users s sid = Some u"
  shows "is_member (fst (disconnect s sid)) rc x =
           (is_member s rc x \<and> \<not> (rc = roomCode u \<and> x = sid))"
proof (cases "rooms s (roomCode u)")
  case None
  then show ?thesis
    using assms by (auto simp: is_member_def rooms_disconnect_no_room)
next
  case (Some r)
  show ?thesis
  proof (cases "AList.delete sid (room_users r) = []")
    case True
    have eq: "rooms (fst (disconnect s sid)) = (rooms s)(roomCode u := None)"
      by (rule rooms_disconnect_last[OF assms Some True])
    show ?thesis
      using Some delete_Nil_keys[OF True, of x] by (auto simp: is_member_def eq)
  next
    case False
    have eq: "rooms (fst (disconnect s sid)) =
         (rooms s)(roomCode u \<mapsto> r\<lparr>room_users := AList.delete sid (room_users r)\<rparr>)"
      by (rule rooms_disconnect_rest[OF assms Some False])
    show ?thesis
      using Some by (auto simp: is_member_def keys_delete eq)
  qed
qed

lemma not_member: "rooms s rc = None \<Longrightarrow> \<not> is_member s rc x"
  by (simp add: is_member_def)

lemma join_refused_fail: "join_refused s rc \<Longrightarrow> fst (join_room s sid rc nm) = s"
  by (rule join_room_fail) (auto simp: join_refused_def split: option.splits)

lemma join_accepted:
  assumes "\<not> join_refused s rc"
  obtains r where "rooms s rc = Some r" and "\<not> 4 \<le> length (room_users r)"
  using assms by (auto simp: join_refused_def split: option.splits)

lemma settled_registered: "settled s sid rc0 \<Longrightarrow> registered_in s sid rc \<Longrightarrow> rc = rc0"
  by (auto simp: settled_def registered_in_def split: option.splits)

lemma create_room_entries_backed:
  assumes "entries_backed s" and "rooms s (generateRoomCode rnd) = None"
  shows "entries_backed (fst (create_room s sid nm rnd now))"
  unfolding entries_backed_def
proof (intro allI impI)
  fix x rc
  assume h: "registered_in (fst (create_room s sid nm rnd now)) x rc"
  have a: "registered_in s x rc \<Longrightarrow> is_member s rc x"
    using assms(1) by (simp add: entries_backed_def)
  have c: "\<not> is_member s (generateRoomCode rnd) x" using assms(2) by (rule not_member)
  show "is_member (fst (create_room s sid nm rnd now)) rc x"
    using h a c by (auto simp: is_member_create_room registered_in_create_room split: if_splits)
qed

lemma join_room_entries_backed:
  assumes "entries_backed s"
  shows "entries_backed (fst (join_room s sid rc0 nm))"
proof (cases "join_refused s rc0")
  case True
  then show ?thesis using assms by (simp add: join_refused_fail)
next
  case False
  then obtain r where r: "rooms s rc0 = Some r" "\<not> 4 \<le> length (room_users r)"
    by (rule join_accepted)
  show ?thesis
    unfolding entries_backed_def
  proof (intro allI impI)
    fix x rc
    assume h: "registered_in (fst (join_room s sid rc0 nm)) x rc"
    have a: "registered_in s x rc \<Longrightarrow> is_member s rc x"
      using assms by (simp add: entries_backed_def)
    show "is_member (fst (join_room s sid rc0 nm)) rc x"
      using h a
      by (auto simp: is_member_join_room[OF r] registered_in_join_room[OF r] split: if_splits)
  qed
qed

lemma disconnect_entries_backed:
  assumes "entries_backed s"
  shows "entries_backed (fst (disconnect s sid))"
proof (cases "users s sid")
  case None
  then show ?thesis using assms by (simp add: disconnect_unregistered)
next
  case (Some u)
  show ?thesis
    unfolding entries_backed_def
  proof (intro allI impI)
    fix x rc
    assume h: "registered_in (fst (disconnect s sid)) x rc"
    have a: "registered_in s x rc \<Longrightarrow> is_member s rc x"
      using assms by (simp add: entries_backed_def)
    show "is_member (fst (disconnect s sid)) rc x"
      using h a by (auto simp: is_member_disconnect[OF Some] registered_in_disconnect)
  qed
qed

lemma handle_entries_backed:
  "entries_backed s \<Longrightarrow> fresh_code s ev \<Longrightarrow> entries_backed (fst (handle s sid ev))"
  by (cases ev)
     (simp_all add: create_room_entries_backed join_room_entries_backed disconnect_entries_backed
        relay_offer_def relay_answer_def relay_ice_candidate_def translation_audio_def
        split: option.splits)

lemma run_entries_backed: "entries_backed s \<Longrightarrow> fresh_codes s evs \<Longrightarrow> entries_backed (run s evs)"
  by (induction evs arbitrary: s) (auto simp: handle_entries_backed)

lemma init_entries_backed: "entries_backed init"
  by (simp add: entries_backed_def registered_in_def init_def)

lemma create_room_members_bound:
  assumes "members_bound s" and "settled s sid (generateRoomCode rnd)"
  shows "members_bound (fst (create_room s sid nm rnd now))"
  unfolding members_bound_def
proof (intro allI impI)
  fix x rc
  assume h: "is_member (fst (create_room s sid nm rnd now)) rc x"
  have a: "is_member s rc x \<Longrightarrow> registered_in s x rc"
    using assms(1) by (simp add: members_bound_def)
  have b: "registered_in s sid rc \<Longrightarrow> rc = generateRoomCode rnd"
    using assms(2) by (rule settled_registered)
  show "registered_in (fst (create_room s sid nm rnd now)) x rc"
    using h a b by (auto simp: is_member_create_room registered_in_create_room split: if_splits)
qed

lemma join_room_members_bound:
  assumes "members_bound s" and "join_refused s rc0 \<or> settled s sid rc0"
  shows "members_bound (fst (join_room s sid rc0 nm))"
proof (cases "join_refused s rc0")
  case True
  then show ?thesis using assms(1) by (simp add: join_refused_fail)
next
  case False
  then obtain r where r: "rooms s rc0 = Some r" "\<not> 4 \<le> length (room_users r)"
    by (rule join_accepted)
  from False assms(2) have st: "settled s sid rc0" by simp
  show ?thesis
    unfolding members_bound_def
  proof (intro allI impI)
    fix x rc
    assume h: "is_member (fst (join_room s sid rc0 nm)) rc x"
    have a: "is_member s rc x \<Longrightarrow> registered_in s x rc"
      using assms(1) by (simp add: members_bound_def)
    have a0: "is_member s rc0 x \<Longrightarrow> registered_in s x rc0"
      using assms(1) by (simp add: members_bound_def)
    have b: "registered_in s sid rc \<Longrightarrow> rc = rc0"
      using st by (rule settled_registered)
    show "registered_in (fst (join_room s sid rc0 nm)) x rc"
      using h a a0 b
      by (auto simp: is_member_join_room[OF r] registered_in_join_room[OF r] split: if_splits)
  qed
qed

lemma disconnect_members_bound:
  assumes "members_bound s"
  shows "members_bound (fst (disconnect s sid))"
proof (cases "users s sid")
  case None
  then show ?thesis using assms by (simp add: disconnect_unregistered)
next
  case (Some u)
  show ?thesis
    unfolding members_bound_def
  proof (intro allI impI)
    fix x rc
    assume h: "is_member (fst (disconnect s sid)) rc x"
    have a: "is_member s rc x \<Longrightarrow> registered_in s x rc"
      using assms by (simp add: members_bound_def)
    have b: "registered_in s sid rc \<longleftrightarrow> rc = roomCode u"
      using Some by (auto simp: registered_in_def)
    show "registered_in (fst (disconnect s sid)) x rc"
      using h a b by (auto simp: is_member_disconnect[OF Some] registered_in_disconnect)
  qed
qed

lemma handle_members_bound:
  "members_bound s \<Longrightarrow> one_room s sid ev \<Longrightarrow> members_bound (fst (handle s sid ev))"
  by (cases ev)
     (simp_all add: create_room_members_bound join_room_members_bound disconnect_members_bound
        relay_offer_def relay_answer_def relay_ice_candidate_def translation_audio_def
        split: option.splits)

lemma run_members_bound: "members_bound s \<Longrightarrow> one_room_each s evs \<Longrightarrow> members_bound (run s evs)"
  by (induction evs arbitrary: s) (auto simp: handle_members_bound)

lemma init_members_bound: "members_bound init"
  by (simp add: members_bound_def is_member_def init_def)

text \<open>
  C2, amended. After every sequence of events from the empty store in which every
  create-room generates a code that is not the code of a stored room, every registry
  entry is backed: the room it names is stored and has the socket of the entry as a
  member, so no entry outlives its room. And after every sequence of events in which no
  create-room and no accepted join-room comes from a socket whose registry entry names
  another room, every member of every stored room has a registry entry that names that
  room.
\<close>

theorem registry_store_agree:
  "(fresh_codes init evs \<and> registered_in (run init evs) x rc \<longrightarrow> is_member (run init evs) rc x) \<and>
   (one_room_each init evs \<and> is_member (run init evs) rc x \<longrightarrow> registered_in (run init evs) x rc)"
proof (rule conjI; rule impI)
  assume h: "fresh_codes init evs \<and> registered_in (run init evs) x rc"
  then have "entries_backed (run init evs)"
    using init_entries_backed by (simp add: run_entries_backed)
  with h show "is_member (run init evs) rc x" by (simp add: entries_backed_def)
next
  assume h: "one_room_each init evs \<and> is_member (run init evs) rc x"
  then have "members_bound (run init evs)"
    using init_members_bound by (simp add: run_members_bound)
  with h show "registered_in (run init evs) x rc" by (simp add: members_bound_def)
qed

theorem registry_store_agree_witness:
  "fresh_codes init [(''s1'', CreateRoom ''Alice'' ''0.abc123xyz'' 0),
                     (''s2'', CreateRoom ''Bob'' ''0.xyz789abc'' 1),
                     (''s1'', JoinRoom ''XYZ789'' ''Alice'' :: unit event)] \<and>
   registered_in (run init [(''s1'', CreateRoom ''Alice'' ''0.abc123xyz'' 0),
                            (''s2'', CreateRoom ''Bob'' ''0.xyz789abc'' 1),
                            (''s1'', JoinRoom ''XYZ789'' ''Alice'' :: unit event)]) ''s1'' ''XYZ789'' \<and>
   is_member (run init [(''s1'', CreateRoom ''Alice'' ''0.abc123xyz'' 0),
                        (''s2'', CreateRoom ''Bob'' ''0.xyz789abc'' 1),
                        (''s1'', JoinRoom ''XYZ789'' ''Alice'' :: unit event)]) ''XYZ789'' ''s1'' \<and>
   one_room_each init [(''s1'', CreateRoom ''Alice'' ''0.abc123xyz'' 0),
                       (''s2'', JoinRoom ''ABC123'' ''Bob''),
                       (''s2'', JoinRoom ''ZZZZZZ'' ''Bob''),
                       (''s1'', Disconnect :: unit event)] \<and>
   is_member (run init [(''s1'', CreateRoom ''Alice'' ''0.abc123xyz'' 0),
                        (''s2'', JoinRoom ''ABC123'' ''Bob''),
                        (''s2'', JoinRoom ''ZZZZZZ'' ''Bob''),
                        (''s1'', Disconnect :: unit event)]) ''ABC123'' ''s2'' \<and>
   registered_in (run init [(''s1'', CreateRoom ''Alice'' ''0.abc123xyz'' 0),
                            (''s2'', JoinRoom ''ABC123'' ''Bob''),
                            (''s2'', JoinRoom ''ZZZZZZ'' ''Bob''),
                            (''s1'', Disconnect :: unit event)]) ''s2'' ''ABC123''"
proof -
  let ?evs1 = "[(''s1'', CreateRoom ''Alice'' ''0.abc123xyz'' 0),
                (''s2'', CreateRoom ''Bob'' ''0.xyz789abc'' 1),
                (''s1'', JoinRoom ''XYZ789'' ''Alice'' :: unit event)]"
  let ?evs2 = "[(''s1'', CreateRoom ''Alice'' ''0.abc123xyz'' 0),
                (''s2'', JoinRoom ''ABC123'' ''Bob''),
                (''s2'', JoinRoom ''ZZZZZZ'' ''Bob''),
                (''s1'', Disconnect :: unit event)]"
  have f: "fresh_codes init ?evs1" by code_simp
  have r: "registered_in (run init ?evs1) ''s1'' ''XYZ789''" by code_simp
  have g: "one_room_each init ?evs2" by code_simp
  have m: "is_member (run init ?evs2) ''ABC123'' ''s2''" by code_simp
  from registry_store_agree[of ?evs1 "''s1''" "''XYZ789''"]
       registry_store_agree[of ?evs2 "''s2''" "''ABC123''"] f r g m
  show ?thesis by simp
qed

text \<open>
  C2 as stated fails in both halves. A socket that created room ABC123 and then joins
  room XYZ789 is still a member of ABC123, while its registry entry names XYZ789. And
  when a second create-room generates the code ABC123 again, the creator of the first
  room keeps a registry entry for ABC123 and is no member of the room now stored there.
\<close>

theorem registry_store_agree_counterexample:
  "is_member (run init [(''s1'', CreateRoom ''Alice'' ''0.abc123xyz'' 0),
                        (''s2'', CreateRoom ''Bob'' ''0.xyz789abc'' 1),
                        (''s1'', JoinRoom ''XYZ789'' ''Alice'' :: unit event)]) ''ABC123'' ''s1'' \<and>
   \<not> registered_in (run init [(''s1'', CreateRoom ''Alice'' ''0.abc123xyz'' 0),
                              (''s2'', CreateRoom ''Bob'' ''0.xyz789abc'' 1),
                              (''s1'', JoinRoom ''XYZ789'' ''Alice'' :: unit event)]) ''s1'' ''ABC123'' \<and>
   registered_in (run init [(''s1'', CreateRoom ''Alice'' ''0.abc123xyz9k'' 0),
                            (''s2'', CreateRoom ''Bob'' ''0.abc123k9m2p'' 1 :: unit event)])
     ''s1'' ''ABC123'' \<and>
   \<not> is_member (run init [(''s1'', CreateRoom ''Alice'' ''0.abc123xyz9k'' 0),
                          (''s2'', CreateRoom ''Bob'' ''0.abc123k9m2p'' 1 :: unit event)])
     ''ABC123'' ''s1''"
  by code_simp

section \<open>Stale membership\<close>

lemma handle_stale:
  assumes "is_member s a sid" and "\<not> registered_in s sid a" and "\<not> touches a sid (sid', ev)"
  shows "is_member (fst (handle s sid' ev)) a sid \<and> \<not> registered_in (fst (handle s sid' ev)) sid a"
proof (cases ev)
  case (CreateRoom nm rnd now)
  with assms show ?thesis
    by (simp add: is_member_create_room registered_in_create_room)
next
  case (JoinRoom rc0 nm)
  show ?thesis
  proof (cases "rooms s rc0 = None \<or> (\<exists>r. rooms s rc0 = Some r \<and> 4 \<le> length (room_users r))")
    case True
    then show ?thesis using assms JoinRoom by (simp add: join_room_fail)
  next
    case False
    then obtain r where r: "rooms s rc0 = Some r" "\<not> 4 \<le> length (room_users r)"
      by auto
    show ?thesis
      using assms JoinRoom
      by (auto simp: is_member_join_room[OF r] registered_in_join_room[OF r])
  qed
next
  case Disconnect
  show ?thesis
  proof (cases "users s sid'")
    case None
    then show ?thesis using assms Disconnect by (simp add: disconnect_unregistered)
  next
    case (Some u)
    have "sid = sid' \<Longrightarrow> roomCode u \<noteq> a"
      using assms(2) Some by (auto simp: registered_in_def)
    then show ?thesis
      using assms Disconnect
      by (auto simp: is_member_disconnect[OF Some] registered_in_disconnect)
  qed
qed (use assms in \<open>simp_all add: relay_offer_def relay_answer_def relay_ice_candidate_def
        translation_audio_def split: option.splits\<close>)

lemma run_stale:
  "is_member s a sid \<Longrightarrow> \<not> registered_in s sid a \<Longrightarrow> \<forall>e \<in> set evs. \<not> touches a sid e \<Longrightarrow>
   is_member (run s evs) a sid \<and> \<not> registered_in (run s evs) sid a"
proof (induction evs arbitrary: s)
  case Nil
  then show ?case by simp
next
  case (Cons e evs)
  obtain sid' ev where e: "e = (sid', ev)" by (cases e)
  from Cons.prems have nt: "\<not> touches a sid (sid', ev)" and rest: "\<forall>e \<in> set evs. \<not> touches a sid e"
    by (simp_all add: e)
  from handle_stale[OF Cons.prems(1,2) nt]
  have "is_member (fst (handle s sid' ev)) a sid" "\<not> registered_in (fst (handle s sid' ev)) sid a"
    by simp_all
  from Cons.IH[OF this rest] show ?case by (simp add: e)
qed


lemma rooms_disconnect_other:
  assumes "users s sid = Some u" and "rc \<noteq> roomCode u"
  shows "rooms (fst (disconnect s sid)) rc = rooms s rc"
proof (cases "rooms s (roomCode u)")
  case None
  then show ?thesis using assms by (simp add: rooms_disconnect_no_room)
next
  case (Some r)
  show ?thesis
  proof (cases "AList.delete sid (room_users r) = []")
    case True
    show ?thesis using assms(2) by (simp add: rooms_disconnect_last[OF assms(1) Some True])
  next
    case False
    show ?thesis using assms(2) by (simp add: rooms_disconnect_rest[OF assms(1) Some False])
  qed
qed

lemma after_overwrite:
  assumes "is_member s1 a sid" and "registered_in s1 sid b" and "b \<noteq> a"
      and "\<forall>e \<in> set evs. \<not> touches a sid e"
  shows "is_member (run s1 evs) a sid \<and> \<not> registered_in (run s1 evs) sid a \<and>
         rooms (fst (disconnect s1 sid)) a = rooms s1 a \<and>
         users (fst (disconnect s1 sid)) sid = None \<and>
         \<not> is_member (fst (disconnect s1 sid)) b sid"
proof -
  from assms(2) obtain u where u: "users s1 sid = Some u" "roomCode u = b"
    by (auto simp: registered_in_def split: option.splits)
  have nr: "\<not> registered_in s1 sid a"
    using u assms(3) by (simp add: registered_in_def)
  have later: "is_member (run s1 evs) a sid \<and> \<not> registered_in (run s1 evs) sid a"
    using assms(1) nr assms(4) by (rule run_stale)
  have keep: "rooms (fst (disconnect s1 sid)) a = rooms s1 a"
    using u assms(3) by (simp add: rooms_disconnect_other[OF u(1)])
  have unbound: "users (fst (disconnect s1 sid)) sid = None"
    by (simp add: users_disconnect)
  have gone: "\<not> is_member (fst (disconnect s1 sid)) b sid"
    using u(2) by (simp add: is_member_disconnect[OF u(1)])
  from later keep unbound gone show ?thesis by simp
qed

lemma join_room_ok_out:
  "rooms s rc = Some r \<Longrightarrow> \<not> 4 \<le> length (room_users r) \<Longrightarrow>
   snd (join_room s sid rc nm) =
     [SocketJoin rc,
      SocketToEmit rc (UserJoined (sid, nm)
        (map snd (AList.update sid \<lparr>p_id = sid, p_name = nm, isHost = False\<rparr> (room_users r)))),
      SocketEmit (RoomJoined rc
        (map snd (AList.update sid \<lparr>p_id = sid, p_name = nm, isHost = False\<rparr> (room_users r)))
        False)]"
  by (simp add: join_room_def Let_def)

lemma create_room_out:
  "snd (create_room s sid nm rnd now) =
     [SocketJoin (generateRoomCode rnd),
      SocketEmit (RoomCreated (generateRoomCode rnd) True
        [\<lparr>p_id = sid, p_name = nm, isHost = True\<rparr>])]"
  by (simp add: create_room_def Let_def)

text \<open>
  C10, amended. Let \<open>sid\<close> be a member of the room stored under \<open>a\<close>. If it sends
  join-room for another stored room \<open>b\<close> with fewer than 4 members, or create-room with a
  generated code other than \<open>a\<close>, the handler succeeds (room-joined, respectively
  room-created, is emitted), \<open>sid\<close> is a member of the new room, its registry entry names
  the new room, and room \<open>a\<close> is untouched, so \<open>sid\<close> is still in it. A disconnect of
  \<open>sid\<close> right after removes it from the new room and from the registry and leaves room
  \<open>a\<close> as it was. And after any later sequence of events that contains neither a
  create-room generating the code \<open>a\<close> nor a join-room for \<open>a\<close> from \<open>sid\<close> itself
  (disconnects of \<open>sid\<close> and of others included), \<open>sid\<close> is still a member of room \<open>a\<close>
  and its registry entry does not name \<open>a\<close>.
\<close>

theorem stale_membership:
  assumes "is_member s a sid"
      and "\<forall>e \<in> set (evs :: (string \<times> 'p event) list). \<not> touches a sid e"
  shows
    "(b \<noteq> a \<and> rooms s b = Some rB \<and> length (room_users rB) < 4 \<longrightarrow>
        snd (handle s sid (JoinRoom b nm :: 'p event)) =
          [SocketJoin b,
           SocketToEmit b (UserJoined (sid, nm)
             (map snd (AList.update sid \<lparr>p_id = sid, p_name = nm, isHost = False\<rparr> (room_users rB)))),
           SocketEmit (RoomJoined b
             (map snd (AList.update sid \<lparr>p_id = sid, p_name = nm, isHost = False\<rparr> (room_users rB)))
             False)] \<and>
        is_member (fst (handle s sid (JoinRoom b nm :: 'p event))) b sid \<and>
        registered_in (fst (handle s sid (JoinRoom b nm :: 'p event))) sid b \<and>
        rooms (fst (handle s sid (JoinRoom b nm :: 'p event))) a = rooms s a \<and>
        is_member (run (fst (handle s sid (JoinRoom b nm :: 'p event))) evs) a sid \<and>
        \<not> registered_in (run (fst (handle s sid (JoinRoom b nm :: 'p event))) evs) sid a \<and>
        rooms (fst (handle (fst (handle s sid (JoinRoom b nm :: 'p event))) sid (Disconnect :: 'p event))) a
          = rooms s a \<and>
        users (fst (handle (fst (handle s sid (JoinRoom b nm :: 'p event))) sid (Disconnect :: 'p event))) sid
          = None \<and>
        \<not> is_member (fst (handle (fst (handle s sid (JoinRoom b nm :: 'p event))) sid (Disconnect :: 'p event)))
             b sid) \<and>
     (generateRoomCode rnd \<noteq> a \<longrightarrow>
        snd (handle s sid (CreateRoom nm rnd now :: 'p event)) =
          [SocketJoin (generateRoomCode rnd),
           SocketEmit (RoomCreated (generateRoomCode rnd) True
             [\<lparr>p_id = sid, p_name = nm, isHost = True\<rparr>])] \<and>
        is_member (fst (handle s sid (CreateRoom nm rnd now :: 'p event))) (generateRoomCode rnd) sid \<and>
        registered_in (fst (handle s sid (CreateRoom nm rnd now :: 'p event))) sid (generateRoomCode rnd) \<and>
        rooms (fst (handle s sid (CreateRoom nm rnd now :: 'p event))) a = rooms s a \<and>
        is_member (run (fst (handle s sid (CreateRoom nm rnd now :: 'p event))) evs) a sid \<and>
        \<not> registered_in (run (fst (handle s sid (CreateRoom nm rnd now :: 'p event))) evs) sid a \<and>
        rooms (fst (handle (fst (handle s sid (CreateRoom nm rnd now :: 'p event))) sid (Disconnect :: 'p event))) a
          = rooms s a \<and>
        users (fst (handle (fst (handle s sid (CreateRoom nm rnd now :: 'p event))) sid (Disconnect :: 'p event))) sid
          = None \<and>
        \<not> is_member (fst (handle (fst (handle s sid (CreateRoom nm rnd now :: 'p event))) sid (Disconnect :: 'p event)))
             (generateRoomCode rnd) sid)"
proof (rule conjI; rule impI)
  assume h: "b \<noteq> a \<and> rooms s b = Some rB \<and> length (room_users rB) < 4"
  then have r: "rooms s b = Some rB" "\<not> 4 \<le> length (room_users rB)" and ne: "b \<noteq> a"
    by simp_all
  define s1 where "s1 = fst (join_room s sid b nm :: server \<times> 'p action list)"
  have m1: "is_member s1 a sid"
    using assms(1) ne by (simp add: s1_def is_member_join_room[OF r])
  have mb: "is_member s1 b sid"
    by (simp add: s1_def is_member_join_room[OF r])
  have rb: "registered_in s1 sid b"
    by (simp add: s1_def registered_in_join_room[OF r])
  have keep: "rooms s1 a = rooms s a"
    using ne by (simp add: s1_def rooms_join_room[OF r])
  have out: "snd (join_room s sid b nm) =
          [SocketJoin b,
           SocketToEmit b (UserJoined (sid, nm)
             (map snd (AList.update sid \<lparr>p_id = sid, p_name = nm, isHost = False\<rparr> (room_users rB)))),
           SocketEmit (RoomJoined b
             (map snd (AList.update sid \<lparr>p_id = sid, p_name = nm, isHost = False\<rparr> (room_users rB)))
             False) :: 'p action]"
    by (rule join_room_ok_out[OF r])
  from after_overwrite[OF m1 rb ne assms(2)] mb rb keep out
  show "snd (handle s sid (JoinRoom b nm :: 'p event)) =
          [SocketJoin b,
           SocketToEmit b (UserJoined (sid, nm)
             (map snd (AList.update sid \<lparr>p_id = sid, p_name = nm, isHost = False\<rparr> (room_users rB)))),
           SocketEmit (RoomJoined b
             (map snd (AList.update sid \<lparr>p_id = sid, p_name = nm, isHost = False\<rparr> (room_users rB)))
             False)] \<and>
        is_member (fst (handle s sid (JoinRoom b nm :: 'p event))) b sid \<and>
        registered_in (fst (handle s sid (JoinRoom b nm :: 'p event))) sid b \<and>
        rooms (fst (handle s sid (JoinRoom b nm :: 'p event))) a = rooms s a \<and>
        is_member (run (fst (handle s sid (JoinRoom b nm :: 'p event))) evs) a sid \<and>
        \<not> registered_in (run (fst (handle s sid (JoinRoom b nm :: 'p event))) evs) sid a \<and>
        rooms (fst (handle (fst (handle s sid (JoinRoom b nm :: 'p event))) sid (Disconnect :: 'p event))) a
          = rooms s a \<and>
        users (fst (handle (fst (handle s sid (JoinRoom b nm :: 'p event))) sid (Disconnect :: 'p event))) sid
          = None \<and>
        \<not> is_member (fst (handle (fst (handle s sid (JoinRoom b nm :: 'p event))) sid (Disconnect :: 'p event)))
             b sid"
    by (simp add: s1_def)
next
  assume ne: "generateRoomCode rnd \<noteq> a"
  define s1 where "s1 = fst (create_room s sid nm rnd now :: server \<times> 'p action list)"
  have m1: "is_member s1 a sid"
    using assms(1) ne by (simp add: s1_def is_member_create_room)
  have mb: "is_member s1 (generateRoomCode rnd) sid"
    by (simp add: s1_def is_member_create_room)
  have rb: "registered_in s1 sid (generateRoomCode rnd)"
    by (simp add: s1_def registered_in_create_room)
  have keep: "rooms s1 a = rooms s a"
    using ne by (simp add: s1_def rooms_create_room)
  from after_overwrite[OF m1 rb ne assms(2)] mb rb keep
  show "snd (handle s sid (CreateRoom nm rnd now :: 'p event)) =
          [SocketJoin (generateRoomCode rnd),
           SocketEmit (RoomCreated (generateRoomCode rnd) True
             [\<lparr>p_id = sid, p_name = nm, isHost = True\<rparr>])] \<and>
        is_member (fst (handle s sid (CreateRoom nm rnd now :: 'p event))) (generateRoomCode rnd) sid \<and>
        registered_in (fst (handle s sid (CreateRoom nm rnd now :: 'p event))) sid (generateRoomCode rnd) \<and>
        rooms (fst (handle s sid (CreateRoom nm rnd now :: 'p event))) a = rooms s a \<and>
        is_member (run (fst (handle s sid (CreateRoom nm rnd now :: 'p event))) evs) a sid \<and>
        \<not> registered_in (run (fst (handle s sid (CreateRoom nm rnd now :: 'p event))) evs) sid a \<and>
        rooms (fst (handle (fst (handle s sid (CreateRoom nm rnd now :: 'p event))) sid (Disconnect :: 'p event))) a
          = rooms s a \<and>
        users (fst (handle (fst (handle s sid (CreateRoom nm rnd now :: 'p event))) sid (Disconnect :: 'p event))) sid
          = None \<and>
        \<not> is_member (fst (handle (fst (handle s sid (CreateRoom nm rnd now :: 'p event))) sid (Disconnect :: 'p event)))
             (generateRoomCode rnd) sid"
    by (simp add: s1_def create_room_out)
qed


theorem stale_membership_witness:
  "is_member (run init [(''s1'', CreateRoom ''Alice'' ''0.abc123xyz'' 0),
                        (''s2'', CreateRoom ''Bob'' ''0.xyz789abc'' 1 :: unit event)]) ''ABC123'' ''s1'' \<and>
   \<not> touches ''ABC123'' ''s1'' (''s3'', JoinRoom ''ABC123'' ''Carol'' :: unit event) \<and>
   \<not> touches ''ABC123'' ''s1'' (''s1'', Disconnect :: unit event) \<and>
   \<not> touches ''ABC123'' ''s1'' (''s3'', Disconnect :: unit event) \<and>
   ''XYZ789'' \<noteq> ''ABC123'' \<and>
   rooms (run init [(''s1'', CreateRoom ''Alice'' ''0.abc123xyz'' 0),
                    (''s2'', CreateRoom ''Bob'' ''0.xyz789abc'' 1 :: unit event)]) ''XYZ789''
     = Some \<lparr>code = ''XYZ789'', host = ''s2'',
             room_users = [(''s2'', \<lparr>p_id = ''s2'', p_name = ''Bob'', isHost = True\<rparr>)],
             createdAt = 1\<rparr> \<and>
   length [(''s2'', \<lparr>p_id = ''s2'', p_name = ''Bob'', isHost = True\<rparr>)] < 4 \<and>
   generateRoomCode ''0.def456ghi'' \<noteq> ''ABC123'' \<and>
   is_member (run (fst (handle (run init [(''s1'', CreateRoom ''Alice'' ''0.abc123xyz'' 0),
                                          (''s2'', CreateRoom ''Bob'' ''0.xyz789abc'' 1 :: unit event)])
                          ''s1'' (JoinRoom ''XYZ789'' ''Alice'' :: unit event)))
             [(''s3'', JoinRoom ''ABC123'' ''Carol''), (''s1'', Disconnect),
              (''s3'', Disconnect :: unit event)]) ''ABC123'' ''s1'' \<and>
   is_member (run (fst (handle (run init [(''s1'', CreateRoom ''Alice'' ''0.abc123xyz'' 0),
                                          (''s2'', CreateRoom ''Bob'' ''0.xyz789abc'' 1 :: unit event)])
                          ''s1'' (CreateRoom ''Alice'' ''0.def456ghi'' 2 :: unit event)))
             [(''s3'', JoinRoom ''ABC123'' ''Carol''), (''s1'', Disconnect),
              (''s3'', Disconnect :: unit event)]) ''ABC123'' ''s1''"
proof -
  let ?s = "run init [(''s1'', CreateRoom ''Alice'' ''0.abc123xyz'' 0),
                      (''s2'', CreateRoom ''Bob'' ''0.xyz789abc'' 1 :: unit event)]"
  let ?evs = "[(''s3'', JoinRoom ''ABC123'' ''Carol''), (''s1'', Disconnect),
               (''s3'', Disconnect :: unit event)]"
  let ?rB = "\<lparr>code = ''XYZ789'', host = ''s2'',
              room_users = [(''s2'', \<lparr>p_id = ''s2'', p_name = ''Bob'', isHost = True\<rparr>)],
              createdAt = 1\<rparr>"
  have m: "is_member ?s ''ABC123'' ''s1''" by code_simp
  have nt: "\<forall>e \<in> set ?evs. \<not> touches ''ABC123'' ''s1'' e" by simp
  have rb: "rooms ?s ''XYZ789'' = Some ?rB" by code_simp
  have ne: "generateRoomCode ''0.def456ghi'' \<noteq> ''ABC123''" by code_simp
  from stale_membership[OF m nt, of "''XYZ789''" ?rB "''Alice''" "''0.def456ghi''" 2] m nt rb ne
  show ?thesis by simp
qed

text \<open>
  C10 as stated fails in its "never removed by any later event": after the socket of
  ABC123 has joined XYZ789, a join-room for ABC123 from the same socket followed by its
  disconnect removes it from ABC123; so does, after its disconnect, a create-room of
  another socket that generates the code ABC123 again, which replaces the room.
\<close>

theorem stale_membership_counterexample:
  "is_member (run init [(''s1'', CreateRoom ''Alice'' ''0.abc123xyz'' 0),
                        (''s2'', CreateRoom ''Bob'' ''0.xyz789abc'' 1),
                        (''s1'', JoinRoom ''XYZ789'' ''Alice'' :: unit event)]) ''ABC123'' ''s1'' \<and>
   registered_in (run init [(''s1'', CreateRoom ''Alice'' ''0.abc123xyz'' 0),
                            (''s2'', CreateRoom ''Bob'' ''0.xyz789abc'' 1),
                            (''s1'', JoinRoom ''XYZ789'' ''Alice'' :: unit event)]) ''s1'' ''XYZ789'' \<and>
   \<not> is_member (run init [(''s1'', CreateRoom ''Alice'' ''0.abc123xyz'' 0),
                          (''s2'', CreateRoom ''Bob'' ''0.xyz789abc'' 1),
                          (''s1'', JoinRoom ''XYZ789'' ''Alice''),
                          (''s1'', JoinRoom ''ABC123'' ''Alice''),
                          (''s1'', Disconnect :: unit event)]) ''ABC123'' ''s1'' \<and>
   \<not> is_member (run init [(''s1'', CreateRoom ''Alice'' ''0.abc123xyz'' 0),
                          (''s2'', CreateRoom ''Bob'' ''0.xyz789abc'' 1),
                          (''s1'', JoinRoom ''XYZ789'' ''Alice''),
                          (''s1'', Disconnect),
                          (''s3'', CreateRoom ''Carol'' ''0.abc123k9'' 2 :: unit event)]) ''ABC123'' ''s1''"
  by code_simp

section \<open>The host flag\<close>














section \<open>create-room\<close>

text \<open>
  C5, amended. The create-room handler does not look at the name: for every name, the
  empty one included, it stores a room under the generated code with the requester as its
  only member (\<open>isHost\<close> true, the name as given), binds the requester in the registry,
  and makes two transport calls, \<open>socket.join\<close> and \<open>socket.emit('room-created', ...)\<close>,
  the second reaching the requester only. No error event is emitted.
\<close>

theorem create_room_any_name:
  "rooms (fst (handle s sid (CreateRoom nm rnd now :: 'p event))) (generateRoomCode rnd)
     = Some \<lparr>code = generateRoomCode rnd, host = sid,
             room_users = [(sid, \<lparr>p_id = sid, p_name = nm, isHost = True\<rparr>)],
             createdAt = now\<rparr> \<and>
   users (fst (handle s sid (CreateRoom nm rnd now :: 'p event))) sid
     = Some \<lparr>roomCode = generateRoomCode rnd, name = nm\<rparr> \<and>
   snd (handle s sid (CreateRoom nm rnd now :: 'p event))
     = [SocketJoin (generateRoomCode rnd),
        SocketEmit (RoomCreated (generateRoomCode rnd) True
          [\<lparr>p_id = sid, p_name = nm, isHost = True\<rparr>])] \<and>
   recipients mem sid (SocketEmit (RoomCreated (generateRoomCode rnd) True
          [\<lparr>p_id = sid, p_name = nm, isHost = True\<rparr>]) :: 'p action) = {sid}"
  by (simp add: rooms_create_room users_create_room create_room_out recipients_def)

text \<open>
  C5 as stated fails: create-room with the empty name, sent to the empty store, creates
  room ABC123, binds the socket in the registry and answers with room-created.
\<close>

theorem create_room_empty_name_counterexample:
  "rooms (fst (handle init ''s1'' (CreateRoom [] ''0.abc123xyz'' 0 :: unit event))) ''ABC123''
     = Some \<lparr>code = ''ABC123'', host = ''s1'',
             room_users = [(''s1'', \<lparr>p_id = ''s1'', p_name = [], isHost = True\<rparr>)],
             createdAt = 0\<rparr> \<and>
   users (fst (handle init ''s1'' (CreateRoom [] ''0.abc123xyz'' 0 :: unit event))) ''s1''
     = Some \<lparr>roomCode = ''ABC123'', name = []\<rparr> \<and>
   snd (handle init ''s1'' (CreateRoom [] ''0.abc123xyz'' 0 :: unit event))
     = [SocketJoin ''ABC123'',
        SocketEmit (RoomCreated ''ABC123'' True [\<lparr>p_id = ''s1'', p_name = [], isHost = True\<rparr>])]"
  by code_simp

text \<open>
  C6. The code of a new room is not checked against the stored rooms. Two values of
  \<open>Math.random()\<close> whose base-36 digits agree in the first six places give the same
  code: the second create-room stores its room under ABC123 over the live one, whose
  creator keeps a registry entry for ABC123 and is no member of the room now stored there.
  And the code is not always six characters long: \<open>Math.random() = 0.5\<close> prints as
  \<open>0.i\<close> and gives the code \<open>I\<close>.
\<close>

theorem create_room_collision:
  "generateRoomCode ''0.abc123xyz9k'' = ''ABC123'' \<and>
   generateRoomCode ''0.abc123k9m2p'' = ''ABC123'' \<and>
   is_member (run init [(''s1'', CreateRoom ''Alice'' ''0.abc123xyz9k'' 0 :: unit event)])
     ''ABC123'' ''s1'' \<and>
   rooms (run init [(''s1'', CreateRoom ''Alice'' ''0.abc123xyz9k'' 0),
                    (''s2'', CreateRoom ''Bob'' ''0.abc123k9m2p'' 1 :: unit event)]) ''ABC123''
     = Some \<lparr>code = ''ABC123'', host = ''s2'',
             room_users = [(''s2'', \<lparr>p_id = ''s2'', p_name = ''Bob'', isHost = True\<rparr>)],
             createdAt = 1\<rparr> \<and>
   registered_in (run init [(''s1'', CreateRoom ''Alice'' ''0.abc123xyz9k'' 0),
                            (''s2'', CreateRoom ''Bob'' ''0.abc123k9m2p'' 1 :: unit event)])
     ''s1'' ''ABC123'' \<and>
   \<not> is_member (run init [(''s1'', CreateRoom ''Alice'' ''0.abc123xyz9k'' 0),
                          (''s2'', CreateRoom ''Bob'' ''0.abc123k9m2p'' 1 :: unit event)])
     ''ABC123'' ''s1'' \<and>
   generateRoomCode ''0.i'' = ''I'' \<and> length (generateRoomCode ''0.i'') = 1"
  by code_simp

end
